theory Spec2Isabelle
  imports Complex_Main
begin

section \<open>The Inventory singleton of the Singleton demo\<close>

text \<open>
  The class \<open>Inventory\<close> (module \<open>bundle.old.ts\<close>, the variant with the private
  constructor and the static accessor) keeps two JavaScript \<open>Map\<close>s, \<open>items\<close> (name to
  stock) and \<open>prices\<close> (name to unit price), and is reached through
  \<open>Inventory.getInstance()\<close>.

  Numbers. A quantity is an integer (the callers produce it with \<open>parseInt(..) || 0\<close>) and
  is modelled by \<open>int\<close>, with the rounding of the JavaScript number type written out
  where the program adds and subtracts; a price is a finite decimal, is only stored and
  read, and is modelled by \<open>rat\<close>. The values \<open>NaN\<close> and the infinities of the
  number type are outside this model. Writing to the console is not modelled.
\<close>

subsection \<open>JavaScript numbers that are integers\<close>

text \<open>
  A JavaScript number is an IEEE 754 double: an integer is a number when it has at most
  53 significant bits, and the sum or difference of two numbers is the exact result
  rounded to the nearest number, a tie going to the number whose 53-bit significand is
  even. Every integer of magnitude at most \<open>2^53\<close> is a number, so the arithmetic is
  exact there and rounds beyond.

  \<open>ulp n\<close> is the distance between neighbouring numbers at the magnitude \<open>n\<close>: 1 below
  \<open>2^53\<close>, 2 from \<open>2^53\<close> to \<open>2^54\<close>, and so on. \<open>round_even\<close> rounds a magnitude,
  \<open>js_number\<close> an integer of either sign.
\<close>

function ulp :: "nat \<Rightarrow> nat" where
  "ulp n = (if n < 2 ^ 53 then 1 else 2 * ulp (n div 2))"
  by pat_completeness auto
termination
  by (relation "measure (\<lambda>n. n)") auto

declare ulp.simps [simp del]

definition round_even :: "nat \<Rightarrow> nat" where
  "round_even n =
     (let u = ulp n; k = n div u; r = n mod u
      in if 2 * r < u then k * u
         else if u < 2 * r then (k + 1) * u
         else if even k then k * u else (k + 1) * u)"

definition js_number :: "int \<Rightarrow> int" where
  "js_number x = (if x < 0 then - int (round_even (nat (- x))) else int (round_even (nat x)))"

definition is_number :: "int \<Rightarrow> bool" where
  "is_number x = (js_number x = x)"

text \<open>
  The operators \<open>a + b\<close> and \<open>a - b\<close> of the program. The arguments of a call and the
  values the program stores are numbers. An \<open>int\<close> that is not a number stands for no
  value of the program; on such an operand the model gives the exact result. A result
  of magnitude \<open>2^1024\<close> or more is infinite in JavaScript; the model has no infinities
  and keeps the rounded integer.
\<close>

definition js_add :: "int \<Rightarrow> int \<Rightarrow> int" where
  "js_add a b = (if is_number a \<and> is_number b then js_number (a + b) else a + b)"

definition js_sub :: "int \<Rightarrow> int \<Rightarrow> int" where
  "js_sub a b = (if is_number a \<and> is_number b then js_number (a - b) else a - b)"

subsection \<open>JavaScript \<open>Map\<close>: insertion-ordered, keys unique\<close>

text \<open>
  A \<open>Map\<close> iterates in insertion order, and \<open>set\<close> on a key that is present replaces the
  value where the key already stands. The model is an association list: \<open>map_get\<close>
  is \<open>Map.prototype.get\<close> (\<open>None\<close> for \<open>undefined\<close>), \<open>map_set\<close> is
  \<open>Map.prototype.set\<close>, \<open>map_entries\<close> is \<open>Array.from(m.entries())\<close>.
\<close>

type_synonym ('k, 'v) js_map = "('k \<times> 'v) list"

fun map_get :: "('k, 'v) js_map \<Rightarrow> 'k \<Rightarrow> 'v option" where
  "map_get [] k = None"
| "map_get ((k', v') # m) k = (if k' = k then Some v' else map_get m k)"

fun map_set :: "('k, 'v) js_map \<Rightarrow> 'k \<Rightarrow> 'v \<Rightarrow> ('k, 'v) js_map" where
  "map_set [] k v = [(k, v)]"
| "map_set ((k', v') # m) k v =
     (if k' = k then (k, v) # m else (k', v') # map_set m k v)"

definition map_entries :: "('k, 'v) js_map \<Rightarrow> ('k \<times> 'v) list" where
  "map_entries m = m"

definition map_keys :: "('k, 'v) js_map \<Rightarrow> 'k set" where
  "map_keys m = set (map fst m)"

text \<open>The invariant of the \<open>Map\<close> type itself: no key occurs twice.\<close>

definition map_inv :: "('k, 'v) js_map \<Rightarrow> bool" where
  "map_inv m = distinct (map fst m)"

text \<open>
  The operator \<open>x || d\<close> on a number or \<open>undefined\<close>: \<open>undefined\<close> and \<open>0\<close> are falsy
  and give \<open>d\<close>, every other number is truthy and gives \<open>x\<close>.
\<close>

definition or_else :: "'a::zero option \<Rightarrow> 'a \<Rightarrow> 'a" where
  "or_else x d = (case x of None \<Rightarrow> d | Some v \<Rightarrow> if v = 0 then d else v)"

subsection \<open>The class \<open>Inventory\<close>\<close>

record Inventory =
  items :: "(string, int) js_map"
  prices :: "(string, rat) js_map"

text \<open>The private constructor: two empty maps.\<close>

definition new_Inventory :: Inventory where
  "new_Inventory = \<lparr>items = [], prices = []\<rparr>"

text \<open>
  Each method takes the object \<open>this\<close> and returns what the method returns, together with
  the object as the method leaves it where the method writes to it.
\<close>

definition addItem :: "string \<Rightarrow> int \<Rightarrow> rat \<Rightarrow> Inventory \<Rightarrow> Inventory" where
  "addItem name quantity price this =
     (let this1 = this\<lparr>items :=
                    map_set (items this) name
                      (js_add (or_else (map_get (items this) name) 0) quantity)\<rparr>
      in this1\<lparr>prices := map_set (prices this1) name price\<rparr>)"

definition sellItem :: "string \<Rightarrow> int \<Rightarrow> Inventory \<Rightarrow> bool \<times> Inventory" where
  "sellItem name quantity this =
     (let currentQuantity = or_else (map_get (items this) name) 0
      in if currentQuantity < quantity then (False, this)
         else (True, this\<lparr>items :=
                       map_set (items this) name (js_sub currentQuantity quantity)\<rparr>))"

definition getStockCount :: "string \<Rightarrow> Inventory \<Rightarrow> int" where
  "getStockCount name this = or_else (map_get (items this) name) 0"

definition getPrice :: "string \<Rightarrow> Inventory \<Rightarrow> rat" where
  "getPrice name this = or_else (map_get (prices this) name) 0"

definition getAllItems :: "Inventory \<Rightarrow> (string \<times> int) list" where
  "getAllItems this = map_entries (items this)"

subsection \<open>Method calls as data\<close>

text \<open>
  A call of one of the five methods, and what it returns. \<open>call\<close> runs a call on an
  object and gives the returned value and the object afterwards; the three queries do
  not write to the object.
\<close>

datatype op =
    AddItem string int rat
  | SellItem string int
  | GetStockCount string
  | GetPrice string
  | GetAllItems

datatype result =
    Void
  | Bool bool
  | Quantity int
  | Price rat
  | Entries "(string \<times> int) list"

fun call :: "op \<Rightarrow> Inventory \<Rightarrow> result \<times> Inventory" where
  "call (AddItem name quantity price) this = (Void, addItem name quantity price this)"
| "call (SellItem name quantity) this =
     (let (ok, this') = sellItem name quantity this in (Bool ok, this'))"
| "call (GetStockCount name) this = (Quantity (getStockCount name this), this)"
| "call (GetPrice name) this = (Price (getPrice name this), this)"
| "call GetAllItems this = (Entries (getAllItems this), this)"

text \<open>A sequence of calls on one object: the object after the last call.\<close>

fun run_calls :: "op list \<Rightarrow> Inventory \<Rightarrow> Inventory" where
  "run_calls [] this = this"
| "run_calls (c # cs) this = run_calls cs (snd (call c this))"

text \<open>Properties of a call that the statements below speak about.\<close>

fun adds_name :: "string \<Rightarrow> op \<Rightarrow> bool" where
  "adds_name n (AddItem name quantity price) = (name = n)"
| "adds_name n _ = False"

fun sells_negative :: "string \<Rightarrow> op \<Rightarrow> bool" where
  "sells_negative n (SellItem name quantity) = (name = n \<and> quantity < 0)"
| "sells_negative n _ = False"

fun add_nonneg :: "op \<Rightarrow> bool" where
  "add_nonneg (AddItem name quantity price) = (0 \<le> quantity)"
| "add_nonneg _ = True"

subsection \<open>The static field and \<open>getInstance\<close>\<close>

text \<open>
  Objects live in a heap and are named by references. The process state is the static
  field \<open>Inventory.instance\<close> (\<open>None\<close> for \<open>null\<close>) and the heap of \<open>Inventory\<close>
  objects; the constructor is private, so \<open>getInstance\<close> is the only place that
  allocates one.
\<close>

type_synonym ref = nat

record process =
  static_instance :: "ref option"
  heap :: "Inventory list"

definition initial_process :: process where
  "initial_process = \<lparr>static_instance = None, heap = []\<rparr>"

definition getInstance :: "process \<Rightarrow> ref \<times> process" where
  "getInstance p =
     (case static_instance p of
        None \<Rightarrow>
          (let r = length (heap p);
               p1 = p\<lparr>heap := heap p @ [new_Inventory]\<rparr>
           in (r, p1\<lparr>static_instance := Some r\<rparr>))
      | Some r \<Rightarrow> (r, p))"

text \<open>
  A method call through a reference reads the object from the heap and writes it back
  as the method leaves it. A reference that names no object gives \<open>None\<close>.
\<close>

definition invoke :: "ref \<Rightarrow> op \<Rightarrow> process \<Rightarrow> (result \<times> process) option" where
  "invoke r c p =
     (if r < length (heap p)
      then (let (res, this') = call c (heap p ! r)
            in Some (res, p\<lparr>heap := (heap p)[r := this']\<rparr>))
      else None)"

text \<open>
  Client code: it asks for a handle (\<open>GetInstance\<close>, the handle is appended to the
  handles it holds) or calls a method through the \<open>i\<close>-th handle it holds
  (\<open>Invoke i c\<close>). \<open>run_client\<close> gives the values returned by the method calls in
  order, the handles held at the end, and the final process state; it gives \<open>None\<close>
  when the client uses a handle it does not hold.
\<close>

datatype step = GetInstance | Invoke nat op

fun run_client ::
  "step list \<Rightarrow> ref list \<Rightarrow> process \<Rightarrow> (result list \<times> ref list \<times> process) option" where
  "run_client [] hs p = Some ([], hs, p)"
| "run_client (GetInstance # cs) hs p =
     (let (h, p') = getInstance p in run_client cs (hs @ [h]) p')"
| "run_client (Invoke i c # cs) hs p =
     (if i < length hs
      then (case invoke (hs ! i) c p of
              None \<Rightarrow> None
            | Some (res, p') \<Rightarrow>
                (case run_client cs hs p' of
                   None \<Rightarrow> None
                 | Some (rs, hs', p'') \<Rightarrow> Some (res # rs, hs', p'')))
      else None)"



subsection \<open>The reference model of the specification\<close>

text \<open>
  The specification describes one shared registry: a mapping \<open>stock\<close> from item name to
  quantity and a mapping \<open>unitPrice\<close> from item name to price, with the operations
  \<open>add\<close>, \<open>sell\<close>, \<open>stockOf\<close>, \<open>priceOf\<close> and \<open>allEntries\<close>. The definitions
  below follow its words: a missing key counts as 0; \<open>add\<close> increments the stock and
  overwrites the price; \<open>sell\<close> fails and changes nothing when the stock is less than
  the quantity, and decrements otherwise. The registry holds the numbers of the program
  and increments and decrements with their arithmetic. The specification leaves the
  order of \<open>allEntries\<close> open; the reference mapping iterates in insertion order.
\<close>

record spec_inventory =
  stock :: "(string, int) js_map"
  unitPrice :: "(string, rat) js_map"









subsection \<open>Relating the program to the reference model\<close>




section \<open>Facts about the numbers\<close>

lemma ulp_small: "n < 2 ^ 53 \<Longrightarrow> ulp n = 1"
  by (simp add: ulp.simps)

lemma ulp_large: "2 ^ 53 \<le> n \<Longrightarrow> ulp n = 2 * ulp (n div 2)"
  by (subst ulp.simps) simp

lemma round_even_exact: "n \<le> 2 ^ 53 \<Longrightarrow> round_even n = n"
proof (cases "n < 2 ^ 53")
  case True
  then show ?thesis by (simp add: round_even_def ulp_small)
next
  case False
  assume "n \<le> 2 ^ 53"
  with False have n: "n = 2 ^ 53" by simp
  have "ulp (2 ^ 53) = 2" by (simp add: ulp_large ulp_small)
  then show ?thesis unfolding n round_even_def by (simp add: Let_def)
qed

lemma js_number_exact: "\<bar>x\<bar> \<le> 2 ^ 53 \<Longrightarrow> js_number x = x"
proof (cases "x < 0")
  case True
  assume "\<bar>x\<bar> \<le> 2 ^ 53"
  with True have "nat (- x) \<le> 2 ^ 53" by (simp add: nat_le_iff)
  then show ?thesis using True by (simp add: js_number_def round_even_exact)
next
  case False
  assume "\<bar>x\<bar> \<le> 2 ^ 53"
  with False have "nat x \<le> 2 ^ 53" by (simp add: nat_le_iff)
  then show ?thesis using False by (simp add: js_number_def round_even_exact)
qed

lemma js_number_nonneg: "0 \<le> x \<Longrightarrow> 0 \<le> js_number x"
  by (simp add: js_number_def)

lemma js_add_exact: "\<bar>a + b\<bar> \<le> 2 ^ 53 \<Longrightarrow> js_add a b = a + b"
  by (simp add: js_add_def js_number_exact)

lemma js_sub_exact: "\<bar>a - b\<bar> \<le> 2 ^ 53 \<Longrightarrow> js_sub a b = a - b"
  by (simp add: js_sub_def js_number_exact)

lemma js_add_nonneg: "0 \<le> a + b \<Longrightarrow> 0 \<le> js_add a b"
  by (simp add: js_add_def js_number_nonneg)

lemma js_sub_nonneg: "b \<le> a \<Longrightarrow> 0 \<le> js_sub a b"
  by (simp add: js_sub_def js_number_nonneg)

lemma js_sub_zero: "js_sub a 0 = a"
  by (simp add: js_sub_def is_number_def)

lemma js_add_zero: "js_add 0 b = b"
  by (simp add: js_add_def is_number_def)

text \<open>Rounding just above \<open>2^53\<close>: the odd integers there are not numbers.\<close>

lemma js_add_rounds: "js_add 9007199254740992 1 = 9007199254740992"
  by (simp add: js_add_def is_number_def js_number_def round_even_def ulp_large ulp_small)

lemma js_sub_rounds: "js_sub 9007199254740994 1 = 9007199254740992"
  by (simp add: js_sub_def is_number_def js_number_def round_even_def ulp_large ulp_small)

section \<open>Facts about the map operations\<close>

lemma map_get_set_same: "map_get (map_set m k v) k = Some v"
  by (induction m) auto

lemma map_get_set_other: "k' \<noteq> k \<Longrightarrow> map_get (map_set m k v) k' = map_get m k'"
  by (induction m) auto

lemma in_map_keys: "(k, v) \<in> set m \<Longrightarrow> k \<in> map_keys m"
  unfolding map_keys_def by force

lemma map_keys_Cons: "map_keys ((k, v) # m) = insert k (map_keys m)"
  by (simp add: map_keys_def)

lemma map_keys_set: "map_keys (map_set m k v) = insert k (map_keys m)"
proof (induction m)
  case Nil
  show ?case by (simp add: map_keys_def)
next
  case (Cons p m)
  obtain k' v' where p: "p = (k', v')" by (cases p)
  show ?case
  proof (cases "k' = k")
    case True
    then show ?thesis by (simp add: p map_keys_Cons)
  next
    case False
    then show ?thesis using Cons.IH by (simp add: p map_keys_Cons insert_commute)
  qed
qed

lemma map_get_None_iff: "map_get m k = None \<longleftrightarrow> k \<notin> map_keys m"
proof (induction m)
  case Nil
  show ?case by (simp add: map_keys_def)
next
  case (Cons p m)
  obtain k' v' where p: "p = (k', v')" by (cases p)
  show ?case using Cons.IH by (simp add: p map_keys_Cons)
qed

lemma map_get_in_set: "map_get m k = Some v \<Longrightarrow> (k, v) \<in> set m"
  by (induction m) (auto split: if_splits)

lemma map_inv_Cons: "map_inv ((k, v) # m) \<longleftrightarrow> k \<notin> map_keys m \<and> map_inv m"
  by (simp add: map_inv_def map_keys_def)

lemma map_inv_get: "map_inv m \<Longrightarrow> (k, v) \<in> set m \<Longrightarrow> map_get m k = Some v"
proof (induction m)
  case Nil
  then show ?case by simp
next
  case (Cons p m)
  obtain k' v' where p: "p = (k', v')" by (cases p)
  from Cons.prems(1) have fresh: "k' \<notin> map_keys m" and inv: "map_inv m"
    by (simp_all add: p map_inv_Cons)
  show ?case
  proof (cases "(k, v) = (k', v')")
    case True
    then show ?thesis by (simp add: p)
  next
    case False
    with Cons.prems(2) have mem: "(k, v) \<in> set m" by (auto simp: p)
    then have "k \<in> map_keys m" by (rule in_map_keys)
    with fresh have "k' \<noteq> k" by blast
    then show ?thesis using Cons.IH [OF inv mem] by (simp add: p)
  qed
qed

lemma map_inv_set: "map_inv m \<Longrightarrow> map_inv (map_set m k v)"
proof (induction m)
  case Nil
  show ?case by (simp add: map_inv_def)
next
  case (Cons p m)
  obtain k' v' where p: "p = (k', v')" by (cases p)
  from Cons.prems have fresh: "k' \<notin> map_keys m" and inv: "map_inv m"
    by (simp_all add: p map_inv_Cons)
  show ?case
  proof (cases "k' = k")
    case True
    then show ?thesis using fresh inv by (simp add: p map_inv_Cons)
  next
    case False
    then show ?thesis using fresh Cons.IH [OF inv]
      by (simp add: p map_inv_Cons map_keys_set)
  qed
qed

lemma or_else_Some_0: "or_else (Some v) 0 = v"
  by (simp add: or_else_def)

lemma or_else_None_0: "or_else None 0 = 0"
  by (simp add: or_else_def)

section \<open>Facts about the methods\<close>

lemma items_addItem:
  "items (addItem name q p this)
     = map_set (items this) name (js_add (getStockCount name this) q)"
  by (simp add: addItem_def getStockCount_def Let_def)

lemma prices_addItem:
  "prices (addItem name q p this) = map_set (prices this) name p"
  by (simp add: addItem_def Let_def)

lemma getStockCount_map_set_same:
  "items this' = map_set (items this) name v \<Longrightarrow> getStockCount name this' = v"
  by (simp add: getStockCount_def map_get_set_same or_else_Some_0)

lemma getStockCount_map_set_other:
  "items this' = map_set (items this) name v \<Longrightarrow> m \<noteq> name \<Longrightarrow>
   getStockCount m this' = getStockCount m this"
  by (simp add: getStockCount_def map_get_set_other)

lemma getStockCount_absent: "name \<notin> map_keys (items this) \<Longrightarrow> getStockCount name this = 0"
  using map_get_None_iff [of "items this" name]
  by (simp add: getStockCount_def or_else_None_0)

lemma getPrice_absent: "name \<notin> map_keys (prices this) \<Longrightarrow> getPrice name this = 0"
  using map_get_None_iff [of "prices this" name]
  by (simp add: getPrice_def or_else_None_0)

lemma sellItem_cases:
  "sellItem name q this =
     (if getStockCount name this < q then (False, this)
      else (True, this\<lparr>items :=
                    map_set (items this) name (js_sub (getStockCount name this) q)\<rparr>))"
  by (simp add: sellItem_def getStockCount_def Let_def)

lemma getStockCount_addItem_same:
  "getStockCount name (addItem name q p this) = js_add (getStockCount name this) q"
  by (rule getStockCount_map_set_same) (rule items_addItem)

lemma getPrice_addItem_same: "getPrice name (addItem name q p this) = p"
  by (simp add: getPrice_def prices_addItem map_get_set_same or_else_Some_0)

section \<open>Properties of the inventory\<close>

subsection \<open>Selling and adding\<close>

text \<open>
  Claim C2 as stated, for every integer quantity, fails for the stock after a successful
  sale: with a stock of \<open>2^53 + 2\<close>, \<open>sellItem("Apple", 1)\<close> returns true and stores
  \<open>2^53\<close>, because \<open>2^53 + 1\<close> is not a number and the subtraction rounds.
\<close>

theorem sellItem_rounds_counterexample:
  "\<not> (fst (sellItem ''Apple'' 1 (addItem ''Apple'' 9007199254740994 1 new_Inventory)) \<longrightarrow>
        getStockCount ''Apple''
          (snd (sellItem ''Apple'' 1 (addItem ''Apple'' 9007199254740994 1 new_Inventory)))
        = getStockCount ''Apple'' (addItem ''Apple'' 9007199254740994 1 new_Inventory) - 1)"
proof -
  let ?s = "addItem ''Apple'' 9007199254740994 1 new_Inventory"
  have stock: "getStockCount ''Apple'' ?s = 9007199254740994"
    by (simp add: getStockCount_addItem_same getStockCount_absent js_add_zero
          new_Inventory_def map_keys_def)
  let ?s' = "?s\<lparr>items := map_set (items ?s) ''Apple'' (js_sub (getStockCount ''Apple'' ?s) 1)\<rparr>"
  have sold: "sellItem ''Apple'' 1 ?s = (True, ?s')"
    by (simp add: sellItem_cases stock)
  have "getStockCount ''Apple'' ?s' = js_sub (getStockCount ''Apple'' ?s) 1"
    by (rule getStockCount_map_set_same) simp
  then have "getStockCount ''Apple'' ?s' = 9007199254740992"
    by (simp add: stock js_sub_rounds)
  then show ?thesis by (simp add: sold stock)
qed

text \<open>
  Claim C2, amended (sell monotonicity). For every state, name and integer quantity
  \<open>q\<close>, \<open>sellItem(name, q)\<close> returns true exactly when \<open>q \<le> getStockCount(name)\<close> read
  just before the call; when it returns true and the stock before minus \<open>q\<close> is of
  magnitude at most \<open>2^53\<close>, the stock of \<open>name\<close> afterwards is the stock before minus
  \<open>q\<close>; when it returns false the object, and so the stock of \<open>name\<close>, is unchanged.
\<close>

theorem sellItem_iff_enough_stock:
  "fst (sellItem name q this) = (q \<le> getStockCount name this)
   \<and> (fst (sellItem name q this) \<and> \<bar>getStockCount name this - q\<bar> \<le> 2 ^ 53 \<longrightarrow>
        getStockCount name (snd (sellItem name q this)) = getStockCount name this - q)
   \<and> (\<not> fst (sellItem name q this) \<longrightarrow>
        snd (sellItem name q this) = this
        \<and> getStockCount name (snd (sellItem name q this)) = getStockCount name this)"
proof (cases "getStockCount name this < q")
  case True
  then show ?thesis by (simp add: sellItem_cases)
next
  case False
  let ?this' = "this\<lparr>items :=
                      map_set (items this) name (js_sub (getStockCount name this) q)\<rparr>"
  have post: "getStockCount name ?this' = js_sub (getStockCount name this) q"
    by (rule getStockCount_map_set_same) simp
  have sold: "sellItem name q this = (True, ?this')"
    using False by (simp add: sellItem_cases)
  have "\<bar>getStockCount name this - q\<bar> \<le> 2 ^ 53 \<longrightarrow>
          getStockCount name ?this' = getStockCount name this - q"
    unfolding post by (simp add: js_sub_exact)
  with False show ?thesis unfolding sold by simp
qed

theorem sellItem_iff_enough_stock_witness:
  "fst (sellItem ''Apple'' 5 (addItem ''Apple'' 50 (3/2) new_Inventory))
   \<and> \<bar>getStockCount ''Apple'' (addItem ''Apple'' 50 (3/2) new_Inventory) - 5\<bar> \<le> 2 ^ 53
   \<and> getStockCount ''Apple'' (snd (sellItem ''Apple'' 5 (addItem ''Apple'' 50 (3/2) new_Inventory))) = 45
   \<and> \<not> fst (sellItem ''Apple'' 100 (addItem ''Apple'' 50 (3/2) new_Inventory))
   \<and> snd (sellItem ''Apple'' 100 (addItem ''Apple'' 50 (3/2) new_Inventory))
       = addItem ''Apple'' 50 (3/2) new_Inventory"
proof -
  have stock: "getStockCount ''Apple'' (addItem ''Apple'' 50 (3/2) new_Inventory) = 50"
    by (simp add: addItem_def getStockCount_def or_else_def new_Inventory_def js_add_exact)
  show ?thesis
    using sellItem_iff_enough_stock [of "''Apple''" 5 "addItem ''Apple'' 50 (3/2) new_Inventory"]
          sellItem_iff_enough_stock [of "''Apple''" 100 "addItem ''Apple'' 50 (3/2) new_Inventory"]
    by (simp add: stock)
qed

text \<open>
  Claim C4 as stated, for any numeric input, fails for the stock: with a stock of
  \<open>2^53\<close>, \<open>addItem("Apple", 1, 1)\<close> leaves the stock at \<open>2^53\<close>, because \<open>2^53 + 1\<close> is
  not a number and the addition rounds.
\<close>

theorem addItem_rounds_counterexample:
  "getStockCount ''Apple'' (addItem ''Apple'' 1 1 (addItem ''Apple'' 9007199254740992 1 new_Inventory))
   \<noteq> getStockCount ''Apple'' (addItem ''Apple'' 9007199254740992 1 new_Inventory) + 1"
proof -
  let ?s = "addItem ''Apple'' 9007199254740992 1 new_Inventory"
  have stock: "getStockCount ''Apple'' ?s = 9007199254740992"
    by (simp add: getStockCount_addItem_same getStockCount_absent js_add_zero
          new_Inventory_def map_keys_def)
  have "getStockCount ''Apple'' (addItem ''Apple'' 1 1 ?s) = 9007199254740992"
    by (simp add: getStockCount_addItem_same [of "''Apple''" 1 1 ?s] stock js_add_rounds)
  then show ?thesis by (simp add: stock)
qed

text \<open>
  Claim C4, amended (effect of add). For every state, name, quantity and price,
  \<open>addItem(name, quantity, price)\<close> returns normally (it has no failing branch and returns
  \<open>void\<close>); afterwards the stock of \<open>name\<close> is the stock before plus \<open>quantity\<close> whenever
  that sum is of magnitude at most \<open>2^53\<close>, it is \<open>quantity\<close> when the name was absent,
  and the price map holds the given price for \<open>name\<close>, whatever it held before.
\<close>

theorem addItem_effect:
  "fst (call (AddItem name q p) this) = Void
   \<and> snd (call (AddItem name q p) this) = addItem name q p this
   \<and> (\<bar>getStockCount name this + q\<bar> \<le> 2 ^ 53 \<longrightarrow>
        getStockCount name (addItem name q p this) = getStockCount name this + q)
   \<and> (name \<notin> map_keys (items this) \<longrightarrow> getStockCount name (addItem name q p this) = q)
   \<and> map_get (prices (addItem name q p this)) name = Some p
   \<and> getPrice name (addItem name q p this) = p"
  by (simp add: getStockCount_addItem_same getPrice_addItem_same getStockCount_absent
        prices_addItem map_get_set_same js_add_exact js_add_zero)

theorem addItem_effect_witness:
  "''Kale'' \<notin> map_keys (items new_Inventory)
   \<and> getStockCount ''Kale'' (addItem ''Kale'' 7 (9/2) new_Inventory) = 7
   \<and> \<bar>getStockCount ''Kale'' (addItem ''Kale'' 7 (9/2) new_Inventory) + 3\<bar> \<le> 2 ^ 53
   \<and> getStockCount ''Kale'' (addItem ''Kale'' 3 4 (addItem ''Kale'' 7 (9/2) new_Inventory)) = 10
   \<and> getPrice ''Kale'' (addItem ''Kale'' 7 (9/2) new_Inventory) = 9/2"
proof -
  have absent: "''Kale'' \<notin> map_keys (items new_Inventory)"
    by (simp add: new_Inventory_def map_keys_def)
  from addItem_effect [of "''Kale''" 7 "9/2" new_Inventory] absent
  have first: "getStockCount ''Kale'' (addItem ''Kale'' 7 (9/2) new_Inventory) = 7"
    and price: "getPrice ''Kale'' (addItem ''Kale'' 7 (9/2) new_Inventory) = 9/2"
    by simp_all
  from addItem_effect [of "''Kale''" 3 4 "addItem ''Kale'' 7 (9/2) new_Inventory"]
  have "getStockCount ''Kale'' (addItem ''Kale'' 3 4 (addItem ''Kale'' 7 (9/2) new_Inventory)) = 10"
    by (simp add: first)
  with absent first price show ?thesis by simp
qed

text \<open>
  Claim C5 as stated, for all quantities, fails for the stock: from the empty inventory
  \<open>addItem("Apple", 2^53, 1)\<close> followed by \<open>addItem("Apple", 1, 1)\<close> gives a stock of
  \<open>2^53\<close>, not \<open>2^53 + 1\<close>.
\<close>

theorem addItem_twice_counterexample:
  "\<not> (''Apple'' \<notin> map_keys (items new_Inventory) \<longrightarrow>
        getStockCount ''Apple''
          (addItem ''Apple'' 1 1 (addItem ''Apple'' 9007199254740992 1 new_Inventory))
        = 9007199254740992 + 1
        \<and> getPrice ''Apple''
            (addItem ''Apple'' 1 1 (addItem ''Apple'' 9007199254740992 1 new_Inventory))
          = 1)"
proof -
  have absent: "''Apple'' \<notin> map_keys (items new_Inventory)"
    by (simp add: new_Inventory_def map_keys_def)
  then have "getStockCount ''Apple''
               (addItem ''Apple'' 1 1 (addItem ''Apple'' 9007199254740992 1 new_Inventory))
             = 9007199254740992"
    by (simp add: getStockCount_addItem_same getStockCount_absent js_add_zero js_add_rounds)
  with absent show ?thesis by simp
qed

text \<open>
  Claim C5, amended (add accumulation). From a state in which \<open>name\<close> is absent,
  \<open>addItem(name, q1, p1)\<close> followed by \<open>addItem(name, q2, p2)\<close> gives
  \<open>getStockCount(name) = q1 + q2\<close> whenever \<open>q1 + q2\<close> is of magnitude at most \<open>2^53\<close>,
  and \<open>getPrice(name) = p2\<close>: the last price wins.
\<close>

theorem addItem_twice:
  "name \<notin> map_keys (items this) \<Longrightarrow>
   (\<bar>q1 + q2\<bar> \<le> 2 ^ 53 \<longrightarrow>
      getStockCount name (addItem name q2 p2 (addItem name q1 p1 this)) = q1 + q2)
   \<and> getPrice name (addItem name q2 p2 (addItem name q1 p1 this)) = p2"
  by (simp add: getStockCount_addItem_same getPrice_addItem_same getStockCount_absent
        js_add_zero js_add_exact)

theorem addItem_twice_witness:
  "''Pear'' \<notin> map_keys (items new_Inventory)
   \<and> \<bar>3 + (4::int)\<bar> \<le> 2 ^ 53
   \<and> getStockCount ''Pear'' (addItem ''Pear'' 4 2 (addItem ''Pear'' 3 1 new_Inventory)) = 3 + 4
   \<and> getPrice ''Pear'' (addItem ''Pear'' 4 2 (addItem ''Pear'' 3 1 new_Inventory)) = 2"
proof -
  have absent: "''Pear'' \<notin> map_keys (items new_Inventory)"
    by (simp add: new_Inventory_def map_keys_def)
  from addItem_twice [OF absent, of 3 4 2 1] absent show ?thesis by simp
qed

subsection \<open>What a call leaves alone, and the entries\<close>

lemma prices_sellItem: "prices (snd (sellItem name q this)) = prices this"
  by (simp add: sellItem_cases)

lemma items_sellItem_other:
  "m \<noteq> name \<Longrightarrow> map_get (items (snd (sellItem name q this))) m = map_get (items this) m"
  by (simp add: sellItem_cases map_get_set_other)

lemma map_keys_sellItem:
  "map_keys (items this) \<subseteq> map_keys (items (snd (sellItem name q this)))"
  by (auto simp: sellItem_cases map_keys_set)

lemma map_keys_addItem:
  "map_keys (items (addItem name q p this)) = insert name (map_keys (items this))"
  by (simp add: items_addItem map_keys_set)

lemma map_keys_call: "map_keys (items this) \<subseteq> map_keys (items (snd (call c this)))"
proof (cases c)
  case (AddItem name q p)
  then show ?thesis by (auto simp: map_keys_addItem)
next
  case (SellItem name q)
  then show ?thesis using map_keys_sellItem [of this name q] by (simp add: split_beta)
qed simp_all

lemma map_keys_run_calls: "map_keys (items this) \<subseteq> map_keys (items (run_calls cs this))"
proof (induction cs arbitrary: this)
  case Nil
  show ?case by simp
next
  case (Cons c cs)
  have "map_keys (items this) \<subseteq> map_keys (items (snd (call c this)))"
    by (rule map_keys_call)
  also have "\<dots> \<subseteq> map_keys (items (run_calls cs (snd (call c this))))"
    by (rule Cons.IH)
  finally show ?case by simp
qed

lemma map_inv_call:
  assumes "map_inv (items this)"
  shows "map_inv (items (snd (call c this)))"
proof (cases c)
  case (AddItem name q p)
  then show ?thesis using assms by (simp add: items_addItem map_inv_set)
next
  case (SellItem name q)
  then show ?thesis using assms by (simp add: split_beta sellItem_cases map_inv_set)
qed (simp_all add: assms)

lemma map_inv_run_calls:
  "map_inv (items this) \<Longrightarrow> map_inv (items (run_calls cs this))"
  by (induction cs arbitrary: this) (simp_all add: map_inv_call)

lemma map_inv_reachable: "map_inv (items (run_calls cs new_Inventory))"
  by (rule map_inv_run_calls) (simp add: new_Inventory_def map_inv_def)

lemma getStockCount_entry:
  "name \<in> map_keys (items this) \<Longrightarrow> (name, getStockCount name this) \<in> set (items this)"
proof -
  assume "name \<in> map_keys (items this)"
  then obtain v where v: "map_get (items this) name = Some v"
    using map_get_None_iff [of "items this" name] by auto
  then have "(name, v) \<in> set (items this)" by (rule map_get_in_set)
  moreover have "getStockCount name this = v"
    by (simp add: getStockCount_def v or_else_Some_0)
  ultimately show ?thesis by simp
qed

text \<open>
  Claim C9 (frame of sell and of the queries). For every state, name \<open>n\<close> and quantity
  \<open>q\<close>, \<open>sellItem(n, q)\<close> leaves the price map, and so the price of every item,
  unchanged, and leaves the entry and the stock of every name other than \<open>n\<close>
  unchanged, whatever it returns; \<open>getStockCount\<close>, \<open>getPrice\<close> and \<open>getAllItems\<close>
  leave the whole object unchanged.
\<close>

theorem sellItem_frame:
  "prices (snd (sellItem n q this)) = prices this
   \<and> (\<forall>m. getPrice m (snd (sellItem n q this)) = getPrice m this)
   \<and> (\<forall>m. m \<noteq> n \<longrightarrow>
          map_get (items (snd (sellItem n q this))) m = map_get (items this) m
          \<and> getStockCount m (snd (sellItem n q this)) = getStockCount m this)
   \<and> snd (call (GetStockCount m) this) = this
   \<and> snd (call (GetPrice m) this) = this
   \<and> snd (call GetAllItems this) = this"
  by (simp add: prices_sellItem items_sellItem_other getPrice_def getStockCount_def)

theorem sellItem_frame_witness:
  "''Kale'' \<noteq> ''Apple''
   \<and> getStockCount ''Kale''
        (snd (sellItem ''Apple'' 5 (addItem ''Apple'' 50 (3/2) (addItem ''Kale'' 7 (9/2) new_Inventory))))
      = 7
   \<and> getPrice ''Apple''
        (snd (sellItem ''Apple'' 5 (addItem ''Apple'' 50 (3/2) (addItem ''Kale'' 7 (9/2) new_Inventory))))
      = 3/2"
proof -
  let ?s = "addItem ''Apple'' 50 (3/2) (addItem ''Kale'' 7 (9/2) new_Inventory)"
  have stock: "getStockCount ''Kale'' ?s = 7"
    by (simp add: addItem_def getStockCount_def or_else_def new_Inventory_def js_add_exact js_sub_exact)
  have price: "getPrice ''Apple'' ?s = 3/2"
    by (simp add: addItem_def getPrice_def or_else_def new_Inventory_def js_add_exact js_sub_exact)
  have neq: "''Kale'' \<noteq> ''Apple''" by simp
  from sellItem_frame [of "''Apple''" 5 ?s] neq stock price show ?thesis
    by simp
qed

text \<open>
  Claim C8 (snapshot of all entries). For every state (a state's \<open>items\<close> is a \<open>Map\<close>,
  so no key occurs twice in it), \<open>getAllItems()\<close> returns a finite list of pairs in
  which no name occurs twice, the names in it are exactly the names present in the stock
  map, each name is paired with \<open>getStockCount\<close> of that name, and the call leaves the
  object unchanged. Nothing is claimed about the order of the pairs.
\<close>

theorem getAllItems_snapshot:
  "map_inv (items this) \<Longrightarrow>
   distinct (map fst (getAllItems this))
   \<and> (\<forall>n. n \<in> set (map fst (getAllItems this)) \<longleftrightarrow> map_get (items this) n \<noteq> None)
   \<and> (\<forall>(n, c) \<in> set (getAllItems this). c = getStockCount n this)
   \<and> (\<forall>n. map_get (items this) n \<noteq> None \<longrightarrow> (n, getStockCount n this) \<in> set (getAllItems this))
   \<and> call GetAllItems this = (Entries (getAllItems this), this)"
proof -
  assume inv: "map_inv (items this)"
  have keys: "\<And>n. n \<in> set (map fst (items this)) \<longleftrightarrow> map_get (items this) n \<noteq> None"
    using map_get_None_iff [of "items this"] by (simp add: map_keys_def)
  have counts: "\<And>n c. (n, c) \<in> set (items this) \<Longrightarrow> c = getStockCount n this"
    using map_inv_get [OF inv] by (simp add: getStockCount_def or_else_Some_0)
  have present: "\<And>n. map_get (items this) n \<noteq> None \<Longrightarrow> (n, getStockCount n this) \<in> set (items this)"
  proof -
    fix n
    assume "map_get (items this) n \<noteq> None"
    then have "n \<in> map_keys (items this)" by (simp add: map_get_None_iff)
    then show "(n, getStockCount n this) \<in> set (items this)" by (rule getStockCount_entry)
  qed
  from inv have "distinct (map fst (items this))" by (simp add: map_inv_def)
  with keys counts present show ?thesis
    by (auto simp: getAllItems_def map_entries_def)
qed


theorem getAllItems_snapshot_witness:
  "map_inv (items (run_calls [AddItem ''Apple'' 50 (3/2), AddItem ''Kale'' 7 (9/2),
                              SellItem ''Apple'' 5] new_Inventory))
   \<and> distinct (map fst (getAllItems
         (run_calls [AddItem ''Apple'' 50 (3/2), AddItem ''Kale'' 7 (9/2),
                     SellItem ''Apple'' 5] new_Inventory)))
   \<and> getAllItems (run_calls [AddItem ''Apple'' 50 (3/2), AddItem ''Kale'' 7 (9/2),
                              SellItem ''Apple'' 5] new_Inventory)
       = [(''Apple'', 45), (''Kale'', 7)]"
proof -
  let ?s = "run_calls [AddItem ''Apple'' 50 (3/2), AddItem ''Kale'' 7 (9/2),
                       SellItem ''Apple'' 5] new_Inventory"
  have its: "items ?s = [(''Apple'', 45), (''Kale'', 7)]"
    by (simp add: addItem_def sellItem_def or_else_def new_Inventory_def js_add_exact js_sub_exact)
  have inv: "map_inv (items ?s)"
    unfolding its by (simp add: map_inv_def)
  from getAllItems_snapshot [OF inv] inv its show ?thesis
    by (simp add: getAllItems_def map_entries_def del: run_calls.simps)
qed

text \<open>
  Claim C10 (names are never removed). The set of names present in the stock map never
  shrinks under any sequence of calls; a name registered by \<open>addItem\<close>, with any
  quantity, is still present after any further calls, and when its stock is 0 then
  \<open>getAllItems()\<close> holds the pair of that name and 0.
\<close>

theorem names_never_removed:
  "map_keys (items this) \<subseteq> map_keys (items (run_calls cs this))
   \<and> name \<in> map_keys (items (run_calls cs (addItem name q p this)))
   \<and> (getStockCount name (run_calls cs (addItem name q p this)) = 0 \<longrightarrow>
        (name, 0) \<in> set (getAllItems (run_calls cs (addItem name q p this))))"
proof -
  let ?s = "run_calls cs (addItem name q p this)"
  have "name \<in> map_keys (items (addItem name q p this))"
    by (simp add: map_keys_addItem)
  then have mem: "name \<in> map_keys (items ?s)"
    using map_keys_run_calls [of "addItem name q p this" cs] by blast
  then have "(name, getStockCount name ?s) \<in> set (getAllItems ?s)"
    using getStockCount_entry [of name ?s] by (simp add: getAllItems_def map_entries_def)
  with mem map_keys_run_calls [of this cs] show ?thesis by auto
qed

theorem names_never_removed_witness:
  "getStockCount ''Apple'' (run_calls [SellItem ''Apple'' 5] (addItem ''Apple'' 5 1 new_Inventory)) = 0
   \<and> (''Apple'', 0) \<in> set (getAllItems
         (run_calls [SellItem ''Apple'' 5] (addItem ''Apple'' 5 1 new_Inventory)))"
proof -
  have "getStockCount ''Apple'' (run_calls [SellItem ''Apple'' 5] (addItem ''Apple'' 5 1 new_Inventory)) = 0"
    by (simp add: addItem_def sellItem_def getStockCount_def or_else_def new_Inventory_def js_add_exact js_sub_exact)
  with names_never_removed [of new_Inventory "[SellItem ''Apple'' 5]" "''Apple''" 5 1]
  show ?thesis by simp
qed

subsection \<open>Non-negative stock\<close>

lemma nonneg_call:
  assumes nonneg: "\<And>n. 0 \<le> getStockCount n this" and c: "add_nonneg c"
  shows "0 \<le> getStockCount n (snd (call c this))"
proof (cases c)
  case (AddItem name q p)
  with c have q: "0 \<le> q" by simp
  show ?thesis
  proof (cases "n = name")
    case True
    then show ?thesis using nonneg [of name] q
      by (simp add: AddItem getStockCount_addItem_same js_add_nonneg)
  next
    case False
    then have "getStockCount n (addItem name q p this) = getStockCount n this"
      by (rule getStockCount_map_set_other [OF items_addItem])
    then show ?thesis using nonneg [of n] by (simp add: AddItem)
  qed
next
  case (SellItem name q)
  show ?thesis
  proof (cases "getStockCount name this < q")
    case True
    then show ?thesis using nonneg [of n] by (simp add: SellItem sellItem_cases)
  next
    case enough: False
    let ?this' = "this\<lparr>items :=
                        map_set (items this) name (js_sub (getStockCount name this) q)\<rparr>"
    have its: "items ?this' = map_set (items this) name (js_sub (getStockCount name this) q)"
      by simp
    have "0 \<le> getStockCount n ?this'"
    proof (cases "n = name")
      case True
      then show ?thesis using enough getStockCount_map_set_same [OF its]
        by (simp add: js_sub_nonneg)
    next
      case False
      then show ?thesis using nonneg [of n] getStockCount_map_set_other [OF its] by simp
    qed
    then show ?thesis using enough by (simp add: SellItem sellItem_cases)
  qed
qed (simp_all add: nonneg)

lemma nonneg_run_calls:
  "(\<And>n. 0 \<le> getStockCount n this) \<Longrightarrow> list_all add_nonneg cs \<Longrightarrow>
   0 \<le> getStockCount n (run_calls cs this)"
proof (induction cs arbitrary: this n)
  case Nil
  then show ?case by simp
next
  case (Cons c cs)
  from Cons.prems(2) have c: "add_nonneg c" and cs: "list_all add_nonneg cs" by simp_all
  have "\<And>m. 0 \<le> getStockCount m (snd (call c this))"
    using Cons.prems(1) c by (rule nonneg_call)
  then have "0 \<le> getStockCount n (run_calls cs (snd (call c this)))"
    using cs by (rule Cons.IH)
  then show ?case by simp
qed

lemma getStockCount_new: "getStockCount n new_Inventory = 0"
  by (simp add: getStockCount_def new_Inventory_def or_else_None_0)

lemma list_all_take: "list_all P xs \<Longrightarrow> list_all P (take k xs)"
  by (auto simp: list_all_iff dest: in_set_takeD)

text \<open>
  Claim C3 as stated, for every sequence of \<open>addItem\<close> and \<open>sellItem\<close> calls, fails:
  \<open>addItem\<close> stores whatever quantity it is given, so adding \<open>-5\<close> of a new item
  leaves a stock of \<open>-5\<close>.
\<close>

theorem stock_never_negative_counterexample:
  "\<not> 0 \<le> getStockCount ''Apple'' (run_calls [AddItem ''Apple'' (- 5) 1] new_Inventory)"
  by (simp add: addItem_def getStockCount_def or_else_def new_Inventory_def js_add_exact js_sub_exact)

text \<open>
  Claim C3, amended (non-negativity). For every sequence of calls starting from the
  empty inventory in which every \<open>addItem\<close> quantity is non-negative, and for every
  name, \<open>getStockCount(name)\<close> is non-negative after every prefix of the sequence.
  The quantities of \<open>sellItem\<close> are not restricted.
\<close>

theorem stock_never_negative:
  "list_all add_nonneg cs \<Longrightarrow> 0 \<le> getStockCount name (run_calls (take k cs) new_Inventory)"
proof -
  assume "list_all add_nonneg cs"
  then have "list_all add_nonneg (take k cs)" by (rule list_all_take)
  with getStockCount_new show ?thesis by (simp add: nonneg_run_calls)
qed

theorem stock_never_negative_witness:
  "list_all add_nonneg [AddItem ''Apple'' 50 (3/2), SellItem ''Apple'' 5, SellItem ''Apple'' 100]
   \<and> 0 \<le> getStockCount ''Apple''
        (run_calls (take 2 [AddItem ''Apple'' 50 (3/2), SellItem ''Apple'' 5, SellItem ''Apple'' 100])
           new_Inventory)"
proof -
  have ok: "list_all add_nonneg [AddItem ''Apple'' 50 (3/2), SellItem ''Apple'' 5, SellItem ''Apple'' 100]"
    by simp
  from stock_never_negative [OF ok, of "''Apple''" 2] ok show ?thesis by simp
qed

text \<open>
  Claim C6 as stated, for every reachable state, fails: after \<open>addItem("Apple", -5, 1)\<close>
  the stock of Apple is \<open>-5\<close>, the guard \<open>currentQuantity < 0\<close> holds and
  \<open>sellItem("Apple", 0)\<close> returns false.
\<close>

theorem sell_zero_counterexample:
  "\<not> fst (sellItem ''Apple'' 0 (run_calls [AddItem ''Apple'' (- 5) 1] new_Inventory))"
  by (simp add: addItem_def sellItem_def or_else_def new_Inventory_def js_add_exact js_sub_exact)

text \<open>
  Claim C6, amended (selling nothing). For every state and name whose stock is
  non-negative, \<open>sellItem(name, 0)\<close> returns true and leaves the stock of \<open>name\<close>
  unchanged.
\<close>

theorem sell_zero:
  "0 \<le> getStockCount name this \<Longrightarrow>
   fst (sellItem name 0 this)
   \<and> getStockCount name (snd (sellItem name 0 this)) = getStockCount name this"
proof -
  assume nonneg: "0 \<le> getStockCount name this"
  let ?this' = "this\<lparr>items :=
                      map_set (items this) name (js_sub (getStockCount name this) 0)\<rparr>"
  have "getStockCount name ?this' = js_sub (getStockCount name this) 0"
    by (rule getStockCount_map_set_same) simp
  with nonneg show ?thesis by (simp add: sellItem_cases js_sub_zero)
qed

theorem sell_zero_witness:
  "0 \<le> getStockCount ''Apple'' (addItem ''Apple'' 50 (3/2) new_Inventory)
   \<and> fst (sellItem ''Apple'' 0 (addItem ''Apple'' 50 (3/2) new_Inventory))
   \<and> getStockCount ''Apple'' (snd (sellItem ''Apple'' 0 (addItem ''Apple'' 50 (3/2) new_Inventory))) = 50"
proof -
  have stock: "getStockCount ''Apple'' (addItem ''Apple'' 50 (3/2) new_Inventory) = 50"
    by (simp add: addItem_def getStockCount_def or_else_def new_Inventory_def js_add_exact js_sub_exact)
  then have nonneg: "0 \<le> getStockCount ''Apple'' (addItem ''Apple'' 50 (3/2) new_Inventory)"
    by simp
  from sell_zero [OF nonneg] stock show ?thesis by simp
qed

subsection \<open>Names that were never added\<close>

lemma unknown_call:
  assumes "\<not> adds_name n c" and "n \<notin> map_keys (prices this)"
  shows "n \<notin> map_keys (prices (snd (call c this)))"
proof (cases c)
  case (AddItem name q p)
  with assms show ?thesis by (simp add: prices_addItem map_keys_set)
next
  case (SellItem name q)
  with assms show ?thesis by (simp add: split_beta prices_sellItem)
qed (simp_all add: assms)

lemma unknown_run_calls:
  "\<not> list_ex (adds_name n) cs \<Longrightarrow> n \<notin> map_keys (prices this) \<Longrightarrow>
   n \<notin> map_keys (prices (run_calls cs this))"
  by (induction cs arbitrary: this) (simp_all add: unknown_call)

lemma zero_stock_call:
  assumes noadd: "\<not> adds_name n c" and nosell: "\<not> sells_negative n c"
    and zero: "getStockCount n this = 0"
  shows "getStockCount n (snd (call c this)) = 0"
proof (cases c)
  case (AddItem name q p)
  with noadd have "n \<noteq> name" by simp
  then have "getStockCount n (addItem name q p this) = getStockCount n this"
    by (rule getStockCount_map_set_other [OF items_addItem])
  with zero show ?thesis by (simp add: AddItem)
next
  case (SellItem name q)
  show ?thesis
  proof (cases "getStockCount name this < q")
    case True
    then show ?thesis using zero by (simp add: SellItem sellItem_cases)
  next
    case enough: False
    let ?this' = "this\<lparr>items :=
                        map_set (items this) name (js_sub (getStockCount name this) q)\<rparr>"
    have its: "items ?this' = map_set (items this) name (js_sub (getStockCount name this) q)"
      by simp
    have "getStockCount n ?this' = 0"
    proof (cases "n = name")
      case True
      with nosell SellItem have "0 \<le> q" by simp
      with enough zero True have "q = 0" and "getStockCount name this = 0" by simp_all
      then have "js_sub (getStockCount name this) q = 0" by (simp add: js_sub_zero)
      with True show ?thesis using getStockCount_map_set_same [OF its] by simp
    next
      case False
      then show ?thesis using zero getStockCount_map_set_other [OF its] by simp
    qed
    then show ?thesis using enough by (simp add: SellItem sellItem_cases)
  qed
qed (simp_all add: zero)

lemma zero_stock_run_calls:
  "\<not> list_ex (adds_name n) cs \<Longrightarrow> \<not> list_ex (sells_negative n) cs \<Longrightarrow>
   getStockCount n this = 0 \<Longrightarrow> getStockCount n (run_calls cs this) = 0"
  by (induction cs arbitrary: this) (simp_all add: zero_stock_call)

text \<open>
  Claim C7 as stated, for every name never passed to \<open>addItem\<close>, fails for the stock:
  \<open>sellItem("Ghost", -5)\<close> on the empty inventory passes the guard (\<open>0 < -5\<close> is
  false), stores \<open>0 - (-5) = 5\<close> and returns true, so \<open>getStockCount("Ghost")\<close> is 5
  although Ghost was never added.
\<close>

theorem unknown_item_counterexample:
  "\<not> (\<not> list_ex (adds_name ''Ghost'') [SellItem ''Ghost'' (- 5)] \<longrightarrow>
        getStockCount ''Ghost'' (run_calls [SellItem ''Ghost'' (- 5)] new_Inventory) = 0
        \<and> getPrice ''Ghost'' (run_calls [SellItem ''Ghost'' (- 5)] new_Inventory) = 0)"
  by (simp add: sellItem_def getStockCount_def or_else_def new_Inventory_def js_add_exact js_sub_exact)

text \<open>
  Claim C7, amended (unknown-item defaults). After any sequence of calls from the empty
  inventory and for every name never passed to \<open>addItem\<close>, \<open>getPrice(name)\<close> returns 0;
  when the name was moreover never passed to \<open>sellItem\<close> with a negative quantity,
  \<open>getStockCount(name)\<close> returns 0. Both queries return a value and leave the object
  as it is: an unknown name is not an error.
\<close>

theorem unknown_item_defaults:
  "\<not> list_ex (adds_name n) cs \<Longrightarrow>
   call (GetPrice n) (run_calls cs new_Inventory) = (Price 0, run_calls cs new_Inventory)
   \<and> (\<not> list_ex (sells_negative n) cs \<longrightarrow>
        call (GetStockCount n) (run_calls cs new_Inventory)
          = (Quantity 0, run_calls cs new_Inventory))"
proof -
  assume noadd: "\<not> list_ex (adds_name n) cs"
  have "n \<notin> map_keys (prices new_Inventory)"
    by (simp add: new_Inventory_def map_keys_def)
  with noadd have "n \<notin> map_keys (prices (run_calls cs new_Inventory))"
    by (rule unknown_run_calls)
  then have price: "getPrice n (run_calls cs new_Inventory) = 0"
    by (rule getPrice_absent)
  have stock: "getStockCount n (run_calls cs new_Inventory) = 0"
    if "\<not> list_ex (sells_negative n) cs"
    using noadd that getStockCount_new by (rule zero_stock_run_calls)
  from price stock show ?thesis by simp
qed

theorem unknown_item_defaults_witness:
  "\<not> list_ex (adds_name ''Ghost'') [AddItem ''Apple'' 50 (3/2), SellItem ''Ghost'' 0, SellItem ''Ghost'' 3]
   \<and> \<not> list_ex (sells_negative ''Ghost'') [AddItem ''Apple'' 50 (3/2), SellItem ''Ghost'' 0, SellItem ''Ghost'' 3]
   \<and> fst (call (GetPrice ''Ghost'')
        (run_calls [AddItem ''Apple'' 50 (3/2), SellItem ''Ghost'' 0, SellItem ''Ghost'' 3] new_Inventory))
      = Price 0
   \<and> fst (call (GetStockCount ''Ghost'')
        (run_calls [AddItem ''Apple'' 50 (3/2), SellItem ''Ghost'' 0, SellItem ''Ghost'' 3] new_Inventory))
      = Quantity 0"
proof -
  let ?cs = "[AddItem ''Apple'' 50 (3/2), SellItem ''Ghost'' 0, SellItem ''Ghost'' 3]"
  have noadd: "\<not> list_ex (adds_name ''Ghost'') ?cs" by simp
  have nosell: "\<not> list_ex (sells_negative ''Ghost'') ?cs" by simp
  from unknown_item_defaults [OF noadd] noadd nosell show ?thesis
    by (simp del: run_calls.simps call.simps)
qed

section \<open>The singleton against the reference model\<close>















text \<open>
  A client with two handles, run on the program itself: what is added through the
  first handle is seen and sold through the second.
\<close>

lemma run_client_example:
  "run_client [GetInstance, Invoke 0 (AddItem ''Orange'' 30 2), GetInstance,
                 Invoke 1 (GetStockCount ''Orange''), Invoke 0 (SellItem ''Orange'' 5),
                 Invoke 1 GetAllItems] [] initial_process
   = Some ([Void, Quantity 30, Bool True, Entries [(''Orange'', 25)]], [0, 0],
           \<lparr>static_instance = Some 0, heap = [\<lparr>items = [(''Orange'', 25)], prices = [(''Orange'', 2)]\<rparr>]\<rparr>)"
  by (simp add: initial_process_def getInstance_def invoke_def new_Inventory_def addItem_def
        sellItem_def getStockCount_def getAllItems_def map_entries_def or_else_def
        js_add_exact js_sub_exact)



end
